theory Spec2Isabelle
  imports Complex_Main "HOL-Library.Sublist"
begin

section \<open>Strings\<close>

text \<open>
  A JavaScript string is modelled as a \<^typ>\<open>string\<close>: the list of the bytes of its UTF-8
  encoding. Every pattern the code searches for is ASCII, and an ASCII byte never occurs
  inside the encoding of another character, so a substring test on the bytes gives the
  answer of \<^verbatim>\<open>String.prototype.includes\<close> on the code units.
\<close>

fun str_includes :: "string \<Rightarrow> string \<Rightarrow> bool" where
  "str_includes [] sub = (sub = [])"
| "str_includes (c # cs) sub = (prefix sub (c # cs) \<or> str_includes cs sub)"

text \<open>
  \<^verbatim>\<open>toLowerCase\<close>, on the ASCII letters. The only other characters that JavaScript maps
  into ASCII letters yield \<^verbatim>\<open>i\<close> followed by a combining dot and \<^verbatim>\<open>k\<close>; neither can
  complete one of the four title patterns below.
\<close>

definition lower_char :: "char \<Rightarrow> char" where
  "lower_char c =
     (case map_of (zip ''ABCDEFGHIJKLMNOPQRSTUVWXYZ'' ''abcdefghijklmnopqrstuvwxyz'') c of
        Some l \<Rightarrow> l
      | None \<Rightarrow> c)"

definition toLowerCase :: "string \<Rightarrow> string" where
  "toLowerCase s = map lower_char s"

section \<open>Problems\<close>

text \<open>The \<^verbatim>\<open>problemSchema\<close> of the shared schema.\<close>

record testCase =
  input :: string
  expectedOutput :: string

datatype difficulty = Easy | Medium | Hard

record problem =
  problem_id :: string
  title :: string
  description :: string
  inputFormat :: string
  outputFormat :: string
  constraints :: string
  sampleInput :: string
  sampleOutput :: string
  difficulty :: difficulty
  timeLimit :: nat
  memoryLimit :: nat
  testCases :: "testCase list"

section \<open>The built-in problem generator\<close>

text \<open>
  A template literal renders the counter \<^verbatim>\<open>problemId\<close> in decimal.
\<close>

fun string_of_nat :: "nat \<Rightarrow> string" where
  "string_of_nat n =
     (if n < 10 then [''0123456789'' ! n]
      else string_of_nat (n div 10) @ [''0123456789'' ! (n mod 10)])"

declare string_of_nat.simps [simp del]

text \<open>
  The entries of \<^verbatim>\<open>problemTemplates\<close>. The sign for "at most" in the constraints is not
  ASCII; it is written as the three bytes of its UTF-8 encoding, and a line feed as its byte.
\<close>

record template =
  title_t :: string
  description_t :: string
  inputFormat_t :: string
  outputFormat_t :: string
  constraints_t :: string
  sampleInput_t :: string
  sampleOutput_t :: string
  testCases_t :: "testCase list"

definition le_sign :: string where
  "le_sign = [CHR 0xE2, CHR 0x89, CHR 0xA4]"

definition lf :: string where
  "lf = [CHR 0x0A]"

definition easy_templates :: "template list" where
  "easy_templates =
    [\<lparr>title_t = ''Hello World Program'',
      description_t = ''Write a C program that prints 'Hello, World!' to the console.'',
      inputFormat_t = ''No input required.'',
      outputFormat_t = ''Print 'Hello, World!' followed by a newline.'',
      constraints_t = ''None'',
      sampleInput_t = [],
      sampleOutput_t = ''Hello, World!'',
      testCases_t = [\<lparr>input = [], expectedOutput = ''Hello, World!''\<rparr>]\<rparr>,
     \<lparr>title_t = ''Sum of Two Numbers'',
      description_t = ''Write a C program that reads two integers and prints their sum.'',
      inputFormat_t = ''Two integers a and b separated by a space.'',
      outputFormat_t = ''Print the sum of a and b.'',
      constraints_t = ''1 '' @ le_sign @ '' a, b '' @ le_sign @ '' 1000'',
      sampleInput_t = ''5 3'',
      sampleOutput_t = ''8'',
      testCases_t =
        [\<lparr>input = ''5 3'', expectedOutput = ''8''\<rparr>,
         \<lparr>input = ''10 20'', expectedOutput = ''30''\<rparr>,
         \<lparr>input = ''1 1'', expectedOutput = ''2''\<rparr>]\<rparr>,
     \<lparr>title_t = ''Even or Odd'',
      description_t = ''Write a C program that checks if a number is even or odd.'',
      inputFormat_t = ''A single integer n.'',
      outputFormat_t = ''Print 'Even' if n is even, 'Odd' if n is odd.'',
      constraints_t = ''1 '' @ le_sign @ '' n '' @ le_sign @ '' 1000'',
      sampleInput_t = ''4'',
      sampleOutput_t = ''Even'',
      testCases_t =
        [\<lparr>input = ''4'', expectedOutput = ''Even''\<rparr>,
         \<lparr>input = ''7'', expectedOutput = ''Odd''\<rparr>,
         \<lparr>input = ''100'', expectedOutput = ''Even''\<rparr>]\<rparr>]"

definition medium_templates :: "template list" where
  "medium_templates =
    [\<lparr>title_t = ''Factorial Calculator'',
      description_t =
        ''Write a C program to calculate the factorial of a given number using iteration.'',
      inputFormat_t = ''A single integer n.'',
      outputFormat_t = ''Print the factorial of n.'',
      constraints_t = ''0 '' @ le_sign @ '' n '' @ le_sign @ '' 10'',
      sampleInput_t = ''5'',
      sampleOutput_t = ''120'',
      testCases_t =
        [\<lparr>input = ''5'', expectedOutput = ''120''\<rparr>,
         \<lparr>input = ''0'', expectedOutput = ''1''\<rparr>,
         \<lparr>input = ''3'', expectedOutput = ''6''\<rparr>]\<rparr>,
     \<lparr>title_t = ''Array Sum'',
      description_t = ''Write a C program that calculates the sum of all elements in an array.'',
      inputFormat_t =
        ''First line contains n (size of array). Second line contains n integers.'',
      outputFormat_t = ''Print the sum of all elements.'',
      constraints_t =
        ''1 '' @ le_sign @ '' n '' @ le_sign @ '' 100, 1 '' @ le_sign @ '' arr[i] '' @ le_sign
          @ '' 1000'',
      sampleInput_t = ''5'' @ lf @ ''1 2 3 4 5'',
      sampleOutput_t = ''15'',
      testCases_t =
        [\<lparr>input = ''5'' @ lf @ ''1 2 3 4 5'', expectedOutput = ''15''\<rparr>,
         \<lparr>input = ''3'' @ lf @ ''10 20 30'', expectedOutput = ''60''\<rparr>,
         \<lparr>input = ''1'' @ lf @ ''42'', expectedOutput = ''42''\<rparr>]\<rparr>]"

definition hard_templates :: "template list" where
  "hard_templates =
    [\<lparr>title_t = ''Prime Number Check'',
      description_t =
        ''Write a C program to check if a given number is prime. Use efficient algorithm.'',
      inputFormat_t = ''A single integer n.'',
      outputFormat_t = ''Print 'Prime' if n is prime, 'Not Prime' otherwise.'',
      constraints_t = ''2 '' @ le_sign @ '' n '' @ le_sign @ '' 10000'',
      sampleInput_t = ''17'',
      sampleOutput_t = ''Prime'',
      testCases_t =
        [\<lparr>input = ''17'', expectedOutput = ''Prime''\<rparr>,
         \<lparr>input = ''4'', expectedOutput = ''Not Prime''\<rparr>,
         \<lparr>input = ''2'', expectedOutput = ''Prime''\<rparr>]\<rparr>,
     \<lparr>title_t = ''Binary Search Implementation'',
      description_t =
        ''Implement binary search algorithm to find an element in a sorted array.'',
      inputFormat_t = ''First line: n (array size), target. Second line: n sorted integers.'',
      outputFormat_t = ''Print the index of target (0-based) or -1 if not found.'',
      constraints_t =
        ''1 '' @ le_sign @ '' n '' @ le_sign @ '' 1000, elements are sorted in ascending order'',
      sampleInput_t = ''5 7'' @ lf @ ''1 3 5 7 9'',
      sampleOutput_t = ''3'',
      testCases_t =
        [\<lparr>input = ''5 7'' @ lf @ ''1 3 5 7 9'', expectedOutput = ''3''\<rparr>,
         \<lparr>input = ''5 6'' @ lf @ ''1 3 5 7 9'', expectedOutput = ''-1''\<rparr>,
         \<lparr>input = ''3 1'' @ lf @ ''1 2 3'', expectedOutput = ''0''\<rparr>]\<rparr>]"

text \<open>
  The requested number of problems per difficulty. The route parses each of them with the
  pattern \<^verbatim>\<open>(\d+)\<close>, so they are natural numbers.
\<close>

record difficulty_counts =
  easy :: nat
  medium :: nat
  hard :: nat

text \<open>
  The three loops of \<^verbatim>\<open>generateSampleProblems\<close> have the same body up to the bank, the
  difficulty tag and the two limits. \<open>generate_step\<close> is that body: it reads the loop
  index \<open>i\<close>, pushes one problem and increments \<^verbatim>\<open>problemId\<close>. The state of the loops is
  the pair of \<^verbatim>\<open>problems\<close> and \<^verbatim>\<open>problemId\<close>.
\<close>

definition generate_step ::
  "string \<Rightarrow> template list \<Rightarrow> difficulty \<Rightarrow> nat \<Rightarrow> nat \<Rightarrow> problem list \<times> nat \<Rightarrow> nat
    \<Rightarrow> problem list \<times> nat" where
  "generate_step topic bank d seconds megabytes st i =
     (let problems = fst st; problemId = snd st;
          template = bank ! (i mod length bank)
      in (problems @
            [\<lparr>problem_id = ''problem_'' @ string_of_nat problemId,
              title = topic @ '' - '' @ title_t template,
              description = description_t template,
              inputFormat = inputFormat_t template,
              outputFormat = outputFormat_t template,
              constraints = constraints_t template,
              sampleInput = sampleInput_t template,
              sampleOutput = sampleOutput_t template,
              difficulty = d,
              timeLimit = seconds,
              memoryLimit = megabytes,
              testCases = testCases_t template\<rparr>],
          problemId + 1))"

definition generateSampleProblems :: "string \<Rightarrow> difficulty_counts \<Rightarrow> problem list" where
  "generateSampleProblems topic d =
     (let s0 = ([], 1);
          s1 = foldl (generate_step topic easy_templates Easy 1 64) s0 [0..<easy d];
          s2 = foldl (generate_step topic medium_templates Medium 2 128) s1 [0..<medium d];
          s3 = foldl (generate_step topic hard_templates Hard 5 256) s2 [0..<hard d]
      in fst s3)"

section \<open>The built-in code analysis\<close>

text \<open>
  The three locals \<^verbatim>\<open>feedback\<close>, \<^verbatim>\<open>suggestions\<close> and \<^verbatim>\<open>score\<close> of
  \<^verbatim>\<open>analyzeCodeBuiltIn\<close> are also the fields of its result, so one record serves as
  the running state and as the value returned. Every score the function computes is an
  integer.
\<close>

record analysis =
  feedback :: string
  suggestions :: "string list"
  score :: int

definition push :: "string \<Rightarrow> analysis \<Rightarrow> analysis" where
  "push s a = a\<lparr>suggestions := suggestions a @ [s]\<rparr>"

definition add_score :: "int \<Rightarrow> analysis \<Rightarrow> analysis" where
  "add_score k a = a\<lparr>score := score a + k\<rparr>"

text \<open>The block commented "Check for basic C structure": three statements in sequence.\<close>

definition check_main :: "string \<Rightarrow> analysis \<Rightarrow> analysis" where
  "check_main code a =
     (if \<not> str_includes code ''int main''
      then add_score (- 20) (push ''Your code should include a main function: int main()'' a)
      else add_score 10 a)"

definition check_stdio :: "string \<Rightarrow> analysis \<Rightarrow> analysis" where
  "check_stdio code a =
     (let hasIncludeStdio = str_includes code ''#include <stdio.h>'';
          hasPrintf = str_includes code ''printf'';
          hasScanf = str_includes code ''scanf''
      in if \<not> hasIncludeStdio \<and> (hasPrintf \<or> hasScanf)
         then add_score (- 10)
                (push ''Don't forget to include #include <stdio.h> for input/output functions'' a)
         else if hasIncludeStdio then add_score 5 a
         else a)"

definition check_return :: "string \<Rightarrow> analysis \<Rightarrow> analysis" where
  "check_return code a =
     (let hasMainFunction = str_includes code ''int main'';
          hasReturnStatement = str_includes code ''return''
      in if \<not> hasReturnStatement \<and> hasMainFunction
         then add_score (- 5)
                (push ''Your main function should return a value (usually return 0;)'' a)
         else if hasReturnStatement then add_score 5 a
         else a)"

definition basic_structure :: "string \<Rightarrow> analysis \<Rightarrow> analysis" where
  "basic_structure code a = check_return code (check_stdio code (check_main code a))"

text \<open>The block commented "Problem-specific analysis": the first matching title wins.\<close>

definition problem_specific :: "string \<Rightarrow> problem \<Rightarrow> analysis \<Rightarrow> analysis" where
  "problem_specific code p a =
     (let t = toLowerCase (title p);
          hasPrintf = str_includes code ''printf'';
          hasScanf = str_includes code ''scanf''
      in if str_includes t ''hello world'' then
           (if hasPrintf \<and> str_includes code ''Hello, World!''
            then (add_score 20 a)\<lparr>feedback := ''Great! Your Hello World program looks correct. ''\<rparr>
            else add_score (- 15)
                   (push ''Make sure to print exactly 'Hello, World!' using printf'' a))
         else if str_includes t ''sum'' then
           (if hasScanf \<and> hasPrintf
            then (add_score 15 a)
                   \<lparr>feedback := ''Good use of input/output functions for the sum calculation. ''\<rparr>
            else add_score (- 10)
                   (push ''Remember to use scanf to read input and printf to display the result'' a))
         else if str_includes t ''factorial'' then
           (if str_includes code ''for'' \<or> str_includes code ''while''
            then (add_score 15 a)\<lparr>feedback := ''Good use of loops for factorial calculation. ''\<rparr>
            else add_score (- 10)
                   (push ''Consider using a loop (for or while) to calculate factorial'' a))
         else if str_includes t ''array'' then
           (if str_includes code ''['' \<and> str_includes code '']''
            then (add_score 10 a)\<lparr>feedback := ''Good use of arrays. ''\<rparr>
            else add_score (- 15)
                   (push ''This problem requires working with arrays - declare and use array variables'' a))
         else a)"

text \<open>The block commented "Code quality checks".\<close>

definition code_quality :: "string \<Rightarrow> analysis \<Rightarrow> analysis" where
  "code_quality code a =
     (let hasComments = str_includes code ''//'' \<or> str_includes code ''/*''
      in if hasComments
         then add_score 5 (push ''Great job adding comments to explain your code!'' a)
         else push ''Consider adding comments to explain your logic'' a)"

text \<open>Everything up to, and not including, the clamp \<^verbatim>\<open>Math.max(0, Math.min(100, score))\<close>.\<close>

definition checks :: "string \<Rightarrow> problem \<Rightarrow> analysis" where
  "checks code p =
     code_quality code
       (problem_specific code p
          (basic_structure code \<lparr>feedback = '''', suggestions = [], score = 60\<rparr>))"

definition within_bounds :: "analysis \<Rightarrow> analysis" where
  "within_bounds a = a\<lparr>score := max 0 (min 100 (score a))\<rparr>"

definition final_feedback :: "analysis \<Rightarrow> analysis" where
  "final_feedback a =
     (let a1 = (if feedback a = '''' then a\<lparr>feedback := ''Your code has been analyzed. ''\<rparr> else a)
      in if score a1 \<ge> 80
         then a1\<lparr>feedback := feedback a1 @ ''Excellent work! Your solution looks well-structured.''\<rparr>
         else if score a1 \<ge> 60
         then a1\<lparr>feedback := feedback a1 @ ''Good effort! There are some areas for improvement.''\<rparr>
         else a1\<lparr>feedback := feedback a1
                  @ ''Your code needs some work. Check the suggestions below.''\<rparr>)"

definition default_suggestion :: "analysis \<Rightarrow> analysis" where
  "default_suggestion a =
     (if length (suggestions a) = 0
      then push ''Your code structure looks good! Keep practicing to improve your C programming skills.'' a
      else a)"

definition analyzeCodeBuiltIn :: "string \<Rightarrow> problem \<Rightarrow> analysis" where
  "analyzeCodeBuiltIn code p = default_suggestion (final_feedback (within_bounds (checks code p)))"

section \<open>JavaScript numbers\<close>

text \<open>
  The built-in analysis only ever computes integers. A score that comes out of a
  provider's reply, or out of the division in the handler, is a JavaScript number: a real
  number or \<^verbatim>\<open>NaN\<close>. (An infinite value can enter only through a reply, where it is
  clamped at once, as any real number beyond the bounds is.) \<^verbatim>\<open>Math.min\<close> and
  \<^verbatim>\<open>Math.max\<close> return \<^verbatim>\<open>NaN\<close> when an argument is \<^verbatim>\<open>NaN\<close>, and a comparison with
  \<^verbatim>\<open>NaN\<close> is false.
\<close>

datatype js_number = NaN | Num real

fun Math_min :: "js_number \<Rightarrow> js_number \<Rightarrow> js_number" where
  "Math_min (Num a) (Num b) = Num (min a b)"
| "Math_min _ _ = NaN"

fun Math_max :: "js_number \<Rightarrow> js_number \<Rightarrow> js_number" where
  "Math_max (Num a) (Num b) = Num (max a b)"
| "Math_max _ _ = NaN"

fun js_ge :: "js_number \<Rightarrow> real \<Rightarrow> bool" where
  "js_ge (Num a) b = (a \<ge> b)"
| "js_ge NaN b = False"

section \<open>The provider\<close>

text \<open>
  The module-level constant \<^verbatim>\<open>openai\<close> is \<^verbatim>\<open>null\<close> when no API key is configured
  and a client otherwise. A client is modelled by what its two uses return: the parsed
  JSON of the completion for the generation prompt and for the analysis prompt, or the
  message of the error that the call or \<^verbatim>\<open>JSON.parse\<close> threw. Both prompts are
  functions of the arguments given here.

  The parsed analysis reply is not validated. Its \<^verbatim>\<open>suggestions\<close> are \<open>None\<close> where
  \<^verbatim>\<open>result.suggestions || []\<close> takes the empty list. Its \<^verbatim>\<open>score\<close> is \<open>None\<close> where
  \<^verbatim>\<open>result.score || 0\<close> takes 0 (the key is missing or its value is falsy), and otherwise
  the number that \<^verbatim>\<open>Math.min\<close> converts the value to: any real number, or \<^verbatim>\<open>NaN\<close> for
  a value that is not numeric, such as the string \<^verbatim>\<open>"85/100"\<close>.
\<close>

record ai_reply =
  feedback_r :: string
  suggestions_r :: "string list option"
  score_r :: "js_number option"

text \<open>
  What \<^verbatim>\<open>analyzeCode\<close> resolves to: the shape of the built-in result, with a score that
  is a JavaScript number. \<open>as_js\<close> is the built-in result seen at that type; in the
  source it is the same object.
\<close>

record js_analysis =
  feedback_js :: string
  suggestions_js :: "string list"
  score_js :: js_number

definition as_js :: "analysis \<Rightarrow> js_analysis" where
  "as_js a =
     \<lparr>feedback_js = feedback a, suggestions_js = suggestions a,
      score_js = Num (real_of_int (score a))\<rparr>"

record openai_client =
  generation_reply :: "string \<Rightarrow> difficulty_counts \<Rightarrow> string + problem list"
  analysis_reply :: "string \<Rightarrow> problem \<Rightarrow> string + ai_reply"

definition generateAssignment ::
  "openai_client option \<Rightarrow> string \<Rightarrow> difficulty_counts \<Rightarrow> nat \<Rightarrow> string + problem list" where
  "generateAssignment openai topic d minutes =
     (case openai of
        None \<Rightarrow> Inr (generateSampleProblems topic d)
      | Some client \<Rightarrow>
          (case generation_reply client topic d of
             Inl message \<Rightarrow> Inl (''Failed to generate assignment: '' @ message)
           | Inr result \<Rightarrow> Inr result))"

definition analyzeCode ::
  "openai_client option \<Rightarrow> string \<Rightarrow> problem \<Rightarrow> string + js_analysis" where
  "analyzeCode openai code p =
     (case openai of
        None \<Rightarrow> Inr (as_js (analyzeCodeBuiltIn code p))
      | Some client \<Rightarrow>
          (case analysis_reply client code p of
             Inl message \<Rightarrow> Inl (''Failed to analyze code: '' @ message)
           | Inr result \<Rightarrow>
               Inr \<lparr>feedback_js = feedback_r result,
                    suggestions_js = (case suggestions_r result of None \<Rightarrow> [] | Some s \<Rightarrow> s),
                    score_js =
                      Math_max (Num 0)
                        (Math_min (Num 100)
                           (case score_r result of None \<Rightarrow> Num 0 | Some v \<Rightarrow> v))\<rparr>))"

section \<open>Storage\<close>

text \<open>
  The score of a submission is a JavaScript number: \<^verbatim>\<open>MemStorage\<close> keeps whatever the
  handler hands it.
\<close>

datatype role = Teacher | Student

record user =
  user_id :: string
  username :: string
  role :: role

record assignment =
  assignment_id :: string
  title_a :: string
  description_a :: string
  teacherId :: string
  problems :: "problem list"
  timeLimit_a :: "nat option"
  dueDate :: "nat option"
  isActive :: "bool option"
  createdAt :: nat

datatype status = Pending | Passed | Failed | Error

text \<open>An entry of \<^verbatim>\<open>testResults\<close>; the two shapes the handler builds differ in the keys present.\<close>

record testResult =
  testCase :: nat
  passed :: bool
  error :: "string option"
  output_text :: "string option"
  expected :: "string option"

record insertSubmission =
  studentId :: string
  assignmentId :: string
  problemIndex :: int
  code :: string
  status :: "status option"
  testResults :: "testResult list option"
  score_s :: "js_number option"

record submission = insertSubmission +
  submission_id :: string
  submittedAt :: nat

text \<open>\<^verbatim>\<open>MemStorage\<close>: three maps from ids to rows.\<close>

record storage =
  users :: "string \<rightharpoonup> user"
  assignments :: "string \<rightharpoonup> assignment"
  submissions :: "string \<rightharpoonup> submission"

definition getAssignment :: "storage \<Rightarrow> string \<Rightarrow> assignment option" where
  "getAssignment st ident = assignments st ident"

text \<open>
  \<^verbatim>\<open>createSubmission\<close> takes the id from \<^verbatim>\<open>randomUUID()\<close> and the time from
  \<^verbatim>\<open>new Date()\<close>; both are arguments here.
\<close>

definition createSubmission ::
  "string \<Rightarrow> nat \<Rightarrow> insertSubmission \<Rightarrow> storage \<Rightarrow> submission \<times> storage" where
  "createSubmission ident time ins st =
     (let sub = \<lparr>studentId = studentId ins, assignmentId = assignmentId ins,
                 problemIndex = problemIndex ins, code = code ins, status = status ins,
                 testResults = testResults ins, score_s = score_s ins,
                 submission_id = ident, submittedAt = time\<rparr>
      in (sub, st\<lparr>submissions := (submissions st)(ident \<mapsto> sub)\<rparr>))"

section \<open>The submission route\<close>

text \<open>
  What a call of the handler reads from outside: the provider, for the \<open>i\<close>-th call of
  \<^verbatim>\<open>Math.random()\<close> whether it returned more than 0.2, the value that the double
  arithmetic of \<^verbatim>\<open>Math.round((passedCount / testResults.length) * 100)\<close> gives for a
  non-zero length, and the id and the time that the storage draws.
\<close>

record env =
  openai :: "openai_client option"
  random_above :: "nat \<Rightarrow> bool"
  round_percent :: "nat \<Rightarrow> nat \<Rightarrow> int"
  randomUUID :: string
  now :: nat

text \<open>
  The request: the authenticated user, if any, and the three required keys of the body,
  \<open>None\<close> where a key is missing or ill-typed. The optional keys of the body are
  overwritten by the handler before anything is stored and are left out.
\<close>

record submission_body =
  assignmentId_b :: "string option"
  problemIndex_b :: "int option"
  code_b :: "string option"

record request =
  req_user :: "user option"
  body :: submission_body

datatype response =
    Status nat string
  | Json submission "testResult list" string "string list"

text \<open>\<^verbatim>\<open>insertSubmissionSchema.parse\<close>; \<open>None\<close> stands for the error it throws.\<close>

definition insertSubmissionSchema_parse :: "submission_body \<Rightarrow> string \<Rightarrow> insertSubmission option" where
  "insertSubmissionSchema_parse b student =
     (case (assignmentId_b b, problemIndex_b b, code_b b) of
        (Some a, Some i, Some c) \<Rightarrow>
          Some \<lparr>studentId = student, assignmentId = a, problemIndex = i, code = c,
                status = None, testResults = None, score_s = None\<rparr>
      | _ \<Rightarrow> None)"

text \<open>Reading an array at an integer index: \<^verbatim>\<open>undefined\<close> outside the array.\<close>

definition js_index :: "'a list \<Rightarrow> int \<Rightarrow> 'a option" where
  "js_index xs i = (if 0 \<le> i \<and> i < int (length xs) then Some (xs ! nat i) else None)"

text \<open>
  The guards of the handler, each an early return: who calls, the body, the assignment,
  the problem.
\<close>

definition resolve :: "request \<Rightarrow> storage \<Rightarrow> response + insertSubmission \<times> problem" where
  "resolve req st =
     (case req_user req of
        None \<Rightarrow> Inl (Status 403 ''Access denied. Students only.'')
      | Some u \<Rightarrow>
          if role u \<noteq> Student then Inl (Status 403 ''Access denied. Students only.'')
          else
            (case insertSubmissionSchema_parse (body req) (user_id u) of
               None \<Rightarrow> Inl (Status 500 ''Failed to submit code'')
             | Some submissionData \<Rightarrow>
                 (case getAssignment st (assignmentId submissionData) of
                    None \<Rightarrow> Inl (Status 404 ''Assignment not found or inactive'')
                  | Some a \<Rightarrow>
                      if isActive a \<noteq> Some True
                      then Inl (Status 404 ''Assignment not found or inactive'')
                      else
                        (case js_index (problems a) (problemIndex submissionData) of
                           None \<Rightarrow> Inl (Status 400 ''Invalid problem index'')
                         | Some p \<Rightarrow> Inr (submissionData, p)))))"

text \<open>
  The first half of the inner \<^verbatim>\<open>try\<close> block: the pre-check on the code and the
  simulated run, giving \<^verbatim>\<open>status\<close>, \<^verbatim>\<open>testResults\<close> and \<^verbatim>\<open>score\<close>.
\<close>

definition structure_ok :: "string \<Rightarrow> bool" where
  "structure_ok c =
     (str_includes c ''int main'' \<and> str_includes c ''#include'' \<and> str_includes c ''return'')"

definition missing_structure :: testResult where
  "missing_structure =
     \<lparr>testCase = 1, passed = False, error = Some ''Missing required C structure'',
      output_text = None, expected = None\<rparr>"

definition simulate :: "env \<Rightarrow> string \<Rightarrow> problem \<Rightarrow> status \<times> testResult list \<times> js_number" where
  "simulate e c p =
     (if \<not> structure_ok c then (Failed, [missing_structure], Num 20)
      else
        (let results =
               map (\<lambda>index. \<lparr>testCase = index + 1, passed = random_above e index, error = None,
                              output_text = Some (sampleOutput p), expected = Some (sampleOutput p)\<rparr>)
                 [0..<length (testCases p)];
             passedCount = length (filter passed results);
             sc = (if length results = 0 then NaN
                   else Num (real_of_int (round_percent e passedCount (length results))))
         in (if js_ge sc 60 then Passed else Failed, results, sc)))"

text \<open>
  The second half and the \<^verbatim>\<open>catch\<close>: the analysis, the row stored and the reply. The
  storage of the source does not throw.
\<close>

definition evaluate :: "env \<Rightarrow> insertSubmission \<Rightarrow> problem \<Rightarrow> storage \<Rightarrow> response \<times> storage" where
  "evaluate e submissionData p st =
     (case simulate e (code submissionData) p of
        (st0, results, sc) \<Rightarrow>
          (case analyzeCode (openai e) (code submissionData) p of
             Inr aiAnalysis \<Rightarrow>
               (case createSubmission (randomUUID e) (now e)
                       (submissionData\<lparr>status := Some st0, testResults := Some results,
                          score_s := Some (Math_min sc (score_js aiAnalysis))\<rparr>) st of
                  (sub, st') \<Rightarrow>
                    (Json sub results (feedback_js aiAnalysis) (suggestions_js aiAnalysis),
                     st'))
           | Inl aiError \<Rightarrow>
               (case createSubmission (randomUUID e) (now e)
                       (submissionData\<lparr>status := Some st0, testResults := Some results,
                          score_s := Some sc\<rparr>) st of
                  (sub, st') \<Rightarrow>
                    (Json sub results
                       ''Code submitted successfully. Basic validation completed.'' [], st'))))"

definition post_submissions :: "env \<Rightarrow> request \<Rightarrow> storage \<Rightarrow> response \<times> storage" where
  "post_submissions e req st =
     (case resolve req st of
        Inl rejection \<Rightarrow> (rejection, st)
      | Inr (submissionData, p) \<Rightarrow> evaluate e submissionData p st)"

section \<open>Vocabulary of the statements\<close>

text \<open>
  \<open>from_template\<close> says that a problem carries the content of a template under a topic:
  the title is the topic, \<^verbatim>\<open>" - "\<close> and the template's title, and the other seven fields
  are the template's.
\<close>

definition from_template :: "string \<Rightarrow> template \<Rightarrow> problem \<Rightarrow> bool" where
  "from_template topic t p \<longleftrightarrow>
     title p = topic @ '' - '' @ title_t t \<and> description p = description_t t
     \<and> inputFormat p = inputFormat_t t \<and> outputFormat p = outputFormat_t t
     \<and> constraints p = constraints_t t \<and> sampleInput p = sampleInput_t t
     \<and> sampleOutput p = sampleOutput_t t \<and> testCases p = testCases_t t"

text \<open>The problem that one pass through the loop body pushes.\<close>

definition made :: "string \<Rightarrow> template list \<Rightarrow> difficulty \<Rightarrow> nat \<Rightarrow> nat \<Rightarrow> nat \<Rightarrow> nat \<Rightarrow> problem" where
  "made topic bank d seconds megabytes k i =
     hd (fst (generate_step topic bank d seconds megabytes ([], k) i))"

section \<open>Example data\<close>

text \<open>
  A stored assignment with one generated problem, a student's request against it, and
  environments without a provider, with a provider whose calls fail, and with a provider
  that replies with a score that is not numeric. In the examples every simulated test case
  passes, and the percentage is rounded half up in exact arithmetic, which is what the
  double arithmetic gives for one passed case out of one. A second storage holds the same
  assignment with a problem that has no test cases.
\<close>

definition half_up_percent :: "nat \<Rightarrow> nat \<Rightarrow> int" where
  "half_up_percent k n = (200 * int k + int n) div (2 * int n)"

definition example_problem :: problem where
  "example_problem =
     \<lparr>problem_id = ''problem_1'', title = ''Recursion - Hello World Program'',
      description = ''Write a C program that prints 'Hello, World!' to the console.'',
      inputFormat = ''No input required.'',
      outputFormat = ''Print 'Hello, World!' followed by a newline.'',
      constraints = ''None'', sampleInput = [], sampleOutput = ''Hello, World!'',
      difficulty = Easy, timeLimit = 1, memoryLimit = 64,
      testCases = [\<lparr>input = [], expectedOutput = ''Hello, World!''\<rparr>]\<rparr>"

definition example_assignment :: assignment where
  "example_assignment =
     \<lparr>assignment_id = ''a1'', title_a = ''Recursion - AI Generated Assignment'',
      description_a = ''Auto-generated assignment covering Recursion with 1 problems'',
      teacherId = ''t1'', problems = [example_problem], timeLimit_a = Some 180,
      dueDate = None, isActive = Some True, createdAt = 0\<rparr>"

definition example_storage :: storage where
  "example_storage =
     \<lparr>users = Map.empty, assignments = [''a1'' \<mapsto> example_assignment],
      submissions = Map.empty\<rparr>"

definition example_request :: "string \<Rightarrow> int \<Rightarrow> request" where
  "example_request c i =
     \<lparr>req_user = Some \<lparr>user_id = ''s1'', username = ''student'', role = Student\<rparr>,
      body = \<lparr>assignmentId_b = Some ''a1'', problemIndex_b = Some i, code_b = Some c\<rparr>\<rparr>"

definition example_data :: "string \<Rightarrow> int \<Rightarrow> insertSubmission" where
  "example_data c i =
     \<lparr>studentId = ''s1'', assignmentId = ''a1'', problemIndex = i, code = c,
      status = None, testResults = None, score_s = None\<rparr>"

definition failing_client :: openai_client where
  "failing_client =
     \<lparr>generation_reply = (\<lambda>topic d. Inl ''Connection error.''),
      analysis_reply = (\<lambda>c p. Inl ''Connection error.'')\<rparr>"




definition example_env :: "openai_client option \<Rightarrow> env" where
  "example_env client =
     \<lparr>openai = client, random_above = (\<lambda>i. True), round_percent = half_up_percent,
      randomUUID = ''u1'', now = 1\<rparr>"

section \<open>Properties of the string functions\<close>

text \<open>\<open>str_includes\<close> is the substring test.\<close>

lemma str_includes_sublist: "str_includes s sub \<longleftrightarrow> sublist sub s"
  by (induction s) (simp_all add: sublist_Cons_right)

lemma str_includes_iff: "str_includes s sub \<longleftrightarrow> (\<exists>before after. s = before @ sub @ after)"
  by (simp add: str_includes_sublist sublist_def)

lemma toLowerCase_example: "toLowerCase ''X - Hello World Program'' = ''x - hello world program''"
  by (simp add: toLowerCase_def lower_char_def)

section \<open>Properties of the problem generator\<close>

lemma generate_step_made:
  "generate_step topic bank d s m (ps, k) i = (ps @ [made topic bank d s m k i], Suc k)"
  by (simp add: generate_step_def made_def Let_def)

text \<open>A loop of \<open>n\<close> passes appends \<open>n\<close> problems and advances the counter by \<open>n\<close>.\<close>

lemma generate_loop:
  "foldl (generate_step topic bank d s m) (ps, k) [0..<n]
     = (ps @ map (\<lambda>i. made topic bank d s m (k + i) i) [0..<n], k + n)"
  by (induction n) (simp_all add: generate_step_made)

lemma generate_blocks:
  "generateSampleProblems topic c =
     map (\<lambda>i. made topic easy_templates Easy 1 64 (1 + i) i) [0..<easy c]
     @ map (\<lambda>i. made topic medium_templates Medium 2 128 (1 + easy c + i) i) [0..<medium c]
     @ map (\<lambda>i. made topic hard_templates Hard 5 256 (1 + easy c + medium c + i) i) [0..<hard c]"
  by (simp add: generateSampleProblems_def generate_loop Let_def)

lemma made_fields:
  "problem_id (made topic bank d s m k i) = ''problem_'' @ string_of_nat k"
  "from_template topic (bank ! (i mod length bank)) (made topic bank d s m k i)"
  "difficulty (made topic bank d s m k i) = d"
  "timeLimit (made topic bank d s m k i) = s"
  "memoryLimit (made topic bank d s m k i) = m"
  by (simp_all add: made_def generate_step_def from_template_def Let_def)

subsection \<open>Decimal numerals are injective\<close>

lemma digit_inj: "a < 10 \<Longrightarrow> b < 10 \<Longrightarrow> ''0123456789'' ! a = ''0123456789'' ! b \<Longrightarrow> a = b"
proof -
  have d: "distinct ''0123456789''" by simp
  show "a < 10 \<Longrightarrow> b < 10 \<Longrightarrow> ''0123456789'' ! a = ''0123456789'' ! b \<Longrightarrow> a = b"
    using nth_eq_iff_index_eq [OF d, of a b] by simp
qed

lemma string_of_nat_nonempty: "string_of_nat n \<noteq> []"
  by (subst string_of_nat.simps) simp

lemma string_of_nat_inj: "string_of_nat m = string_of_nat n \<Longrightarrow> m = n"
proof (induction m arbitrary: n rule: string_of_nat.induct)
  case (1 m)
  show ?case
  proof (cases "m < 10")
    case True
    then have m: "string_of_nat m = [''0123456789'' ! m]"
      by (subst string_of_nat.simps) simp
    show ?thesis
    proof (cases "n < 10")
      case n: True
      then have "string_of_nat n = [''0123456789'' ! n]"
        by (subst string_of_nat.simps) simp
      with m "1.prems" have "''0123456789'' ! m = ''0123456789'' ! n" by simp
      with True n show ?thesis by (rule digit_inj)
    next
      case False
      then have "string_of_nat n = string_of_nat (n div 10) @ [''0123456789'' ! (n mod 10)]"
        by (subst string_of_nat.simps) simp
      with m "1.prems" have "string_of_nat (n div 10) = []" by simp
      then show ?thesis by (simp add: string_of_nat_nonempty)
    qed
  next
    case False
    then have m: "string_of_nat m = string_of_nat (m div 10) @ [''0123456789'' ! (m mod 10)]"
      by (subst string_of_nat.simps) simp
    show ?thesis
    proof (cases "n < 10")
      case True
      then have "string_of_nat n = [''0123456789'' ! n]"
        by (subst string_of_nat.simps) simp
      with m "1.prems" have "string_of_nat (m div 10) = []" by simp
      then show ?thesis by (simp add: string_of_nat_nonempty)
    next
      case n: False
      then have "string_of_nat n = string_of_nat (n div 10) @ [''0123456789'' ! (n mod 10)]"
        by (subst string_of_nat.simps) simp
      with m "1.prems" have q: "string_of_nat (m div 10) = string_of_nat (n div 10)"
        and r: "''0123456789'' ! (m mod 10) = ''0123456789'' ! (n mod 10)" by simp_all
      from "1.IH" [OF False q] have "m div 10 = n div 10" .
      moreover have "m mod 10 = n mod 10"
        by (rule digit_inj [OF _ _ r]) simp_all
      ultimately show ?thesis by (metis div_mult_mod_eq)
    qed
  qed
qed

lemma string_of_digit:
  "string_of_nat (0 + 1) = ''1''" "string_of_nat (1 + 1) = ''2''"
  "string_of_nat (3 + 1) = ''4''" "string_of_nat (6 + 1) = ''7''"
  "string_of_nat (7 + 1) = ''8''"
  by (simp_all add: string_of_nat.simps)

subsection \<open>The generated list\<close>

lemma generate_ids:
  "map problem_id (generateSampleProblems topic c)
     = map (\<lambda>k. ''problem_'' @ string_of_nat (Suc k)) [0..<easy c + medium c + hard c]"
proof -
  have shift: "map f [0..<a + b] = map f [0..<a] @ map (\<lambda>i. f (a + i)) [0..<b]"
    for f :: "nat \<Rightarrow> string" and a b
    by (induction b) simp_all
  show ?thesis
    by (simp add: generate_blocks made_fields shift o_def add.assoc)
qed

lemma generate_length:
  "length (generateSampleProblems topic c) = easy c + medium c + hard c"
  by (simp add: generate_blocks)

lemma generate_easy_nth:
  "i < easy c \<Longrightarrow>
     generateSampleProblems topic c ! i = made topic easy_templates Easy 1 64 (1 + i) i"
  by (simp add: generate_blocks nth_append)

lemma generate_medium_nth:
  "i < medium c \<Longrightarrow>
     generateSampleProblems topic c ! (easy c + i)
       = made topic medium_templates Medium 2 128 (1 + easy c + i) i"
  by (simp add: generate_blocks nth_append)

lemma generate_hard_nth:
  "i < hard c \<Longrightarrow>
     generateSampleProblems topic c ! (easy c + medium c + i)
       = made topic hard_templates Hard 5 256 (1 + easy c + medium c + i) i"
  by (simp add: generate_blocks nth_append)

lemma generate_id_nth:
  assumes "k < easy c + medium c + hard c"
  shows "problem_id (generateSampleProblems topic c ! k) = ''problem_'' @ string_of_nat (k + 1)"
proof -
  from assms have "k < length (generateSampleProblems topic c)"
    by (simp add: generate_length)
  then have "problem_id (generateSampleProblems topic c ! k)
      = map problem_id (generateSampleProblems topic c) ! k"
    by simp
  also have "\<dots> = ''problem_'' @ string_of_nat (k + 1)"
    using assms by (simp add: generate_ids del: upt_Suc)
  finally show ?thesis .
qed

lemma generate_ids_distinct: "distinct (map problem_id (generateSampleProblems topic c))"
  unfolding generate_ids
  by (auto simp: distinct_map inj_on_def dest: string_of_nat_inj)

text \<open>
  C3. Without a provider, for every topic and every request of \<open>easy\<close>, \<open>medium\<close> and
  \<open>hard\<close> problems, generation returns the built-in list, of \<open>easy + medium + hard\<close>
  problems: first the easy block (tagged easy, 1 second, 64 MB), then the medium block
  (medium, 2 seconds, 128 MB), then the hard block (hard, 5 seconds, 256 MB). The
  \<open>i\<close>-th problem of a block carries template \<open>i mod bank_size\<close> of the block's bank, the
  banks holding 3, 2 and 2 templates, its title being the topic, \<^verbatim>\<open>" - "\<close> and the
  template's title. The problem at position \<open>k\<close> of the output, counted from 0, has the id
  \<^verbatim>\<open>problem_\<close> followed by the decimal numeral of \<open>k + 1\<close>, and the ids are pairwise
  distinct.
\<close>

theorem generate_fallback_blocks:
  "generateAssignment None topic c minutes = Inr (generateSampleProblems topic c)
   \<and> length (generateSampleProblems topic c) = easy c + medium c + hard c
   \<and> length easy_templates = 3 \<and> length medium_templates = 2 \<and> length hard_templates = 2
   \<and> (\<forall>i<easy c.
         let p = generateSampleProblems topic c ! i
         in from_template topic (easy_templates ! (i mod length easy_templates)) p
            \<and> difficulty p = Easy \<and> timeLimit p = 1 \<and> memoryLimit p = 64)
   \<and> (\<forall>i<medium c.
         let p = generateSampleProblems topic c ! (easy c + i)
         in from_template topic (medium_templates ! (i mod length medium_templates)) p
            \<and> difficulty p = Medium \<and> timeLimit p = 2 \<and> memoryLimit p = 128)
   \<and> (\<forall>i<hard c.
         let p = generateSampleProblems topic c ! (easy c + medium c + i)
         in from_template topic (hard_templates ! (i mod length hard_templates)) p
            \<and> difficulty p = Hard \<and> timeLimit p = 5 \<and> memoryLimit p = 256)
   \<and> (\<forall>k<easy c + medium c + hard c.
         problem_id (generateSampleProblems topic c ! k) = ''problem_'' @ string_of_nat (k + 1))
   \<and> distinct (map problem_id (generateSampleProblems topic c))"
proof -
  have "generateAssignment None topic c minutes = Inr (generateSampleProblems topic c)"
    by (simp add: generateAssignment_def)
  moreover have "length easy_templates = 3" "length medium_templates = 2"
    "length hard_templates = 2"
    by (simp_all add: easy_templates_def medium_templates_def hard_templates_def)
  moreover have "\<forall>i<easy c.
         let p = generateSampleProblems topic c ! i
         in from_template topic (easy_templates ! (i mod length easy_templates)) p
            \<and> difficulty p = Easy \<and> timeLimit p = 1 \<and> memoryLimit p = 64"
    by (simp add: generate_easy_nth made_fields)
  moreover have "\<forall>i<medium c.
         let p = generateSampleProblems topic c ! (easy c + i)
         in from_template topic (medium_templates ! (i mod length medium_templates)) p
            \<and> difficulty p = Medium \<and> timeLimit p = 2 \<and> memoryLimit p = 128"
    by (simp add: generate_medium_nth made_fields)
  moreover have "\<forall>i<hard c.
         let p = generateSampleProblems topic c ! (easy c + medium c + i)
         in from_template topic (hard_templates ! (i mod length hard_templates)) p
            \<and> difficulty p = Hard \<and> timeLimit p = 5 \<and> memoryLimit p = 256"
    by (simp add: generate_hard_nth made_fields)
  moreover have "\<forall>k<easy c + medium c + hard c.
         problem_id (generateSampleProblems topic c ! k) = ''problem_'' @ string_of_nat (k + 1)"
    using generate_id_nth by blast
  ultimately show ?thesis
    using generate_length [of topic c] generate_ids_distinct [of topic c] by blast
qed

text \<open>
  The theorem at two requests: two easy problems on "Recursion", and four easy, three
  medium and one hard problem on "Loops", where the easy and the medium bank wrap around.
\<close>

theorem generate_fallback_blocks_witness:
  "(0::nat) < easy \<lparr>easy = 2, medium = 0, hard = 0\<rparr>
   \<and> (1::nat) < easy \<lparr>easy = 2, medium = 0, hard = 0\<rparr>
   \<and> length (generateSampleProblems ''Recursion'' \<lparr>easy = 2, medium = 0, hard = 0\<rparr>) = 2
   \<and> map (\<lambda>p. (problem_id p, title p, difficulty p, timeLimit p, memoryLimit p))
        [generateSampleProblems ''Recursion'' \<lparr>easy = 2, medium = 0, hard = 0\<rparr> ! 0,
         generateSampleProblems ''Recursion'' \<lparr>easy = 2, medium = 0, hard = 0\<rparr> ! 1]
       = [(''problem_1'', ''Recursion - Hello World Program'', Easy, 1, 64),
          (''problem_2'', ''Recursion - Sum of Two Numbers'', Easy, 1, 64)]
   \<and> (3::nat) < easy \<lparr>easy = 4, medium = 3, hard = 1\<rparr>
   \<and> (2::nat) < medium \<lparr>easy = 4, medium = 3, hard = 1\<rparr>
   \<and> (0::nat) < hard \<lparr>easy = 4, medium = 3, hard = 1\<rparr>
   \<and> length (generateSampleProblems ''Loops'' \<lparr>easy = 4, medium = 3, hard = 1\<rparr>) = 8
   \<and> map (\<lambda>p. (problem_id p, title p, difficulty p, timeLimit p, memoryLimit p))
        [generateSampleProblems ''Loops'' \<lparr>easy = 4, medium = 3, hard = 1\<rparr> ! 3,
         generateSampleProblems ''Loops'' \<lparr>easy = 4, medium = 3, hard = 1\<rparr> ! 6,
         generateSampleProblems ''Loops'' \<lparr>easy = 4, medium = 3, hard = 1\<rparr> ! 7]
       = [(''problem_4'', ''Loops - Hello World Program'', Easy, 1, 64),
          (''problem_7'', ''Loops - Factorial Calculator'', Medium, 2, 128),
          (''problem_8'', ''Loops - Prime Number Check'', Hard, 5, 256)]"
proof -
  let ?c = "\<lparr>easy = 2, medium = 0, hard = 0\<rparr>"
  let ?d = "\<lparr>easy = 4, medium = 3, hard = 1\<rparr>"
  let ?g = "generateSampleProblems ''Recursion'' ?c"
  let ?h = "generateSampleProblems ''Loops'' ?d"
  note c = generate_fallback_blocks [of "''Recursion''" ?c 180]
  note d = generate_fallback_blocks [of "''Loops''" ?d 180]
  have c0: "(0::nat) < easy ?c" and c1: "(1::nat) < easy ?c" by simp_all
  have d3: "(3::nat) < easy ?d" and d2: "(2::nat) < medium ?d" and d0: "(0::nat) < hard ?d"
    by simp_all
  from c have lc: "length ?g = 2" by simp
  from d have ld: "length ?h = 8" by simp
  from c have ce: "\<forall>i<easy ?c.
         let p = ?g ! i
         in from_template ''Recursion'' (easy_templates ! (i mod length easy_templates)) p
            \<and> difficulty p = Easy \<and> timeLimit p = 1 \<and> memoryLimit p = 64"
    and ci: "\<forall>k<easy ?c + medium ?c + hard ?c.
         problem_id (?g ! k) = ''problem_'' @ string_of_nat (k + 1)"
    by blast+
  from d have de: "\<forall>i<easy ?d.
         let p = ?h ! i
         in from_template ''Loops'' (easy_templates ! (i mod length easy_templates)) p
            \<and> difficulty p = Easy \<and> timeLimit p = 1 \<and> memoryLimit p = 64"
    and dm: "\<forall>i<medium ?d.
         let p = ?h ! (easy ?d + i)
         in from_template ''Loops'' (medium_templates ! (i mod length medium_templates)) p
            \<and> difficulty p = Medium \<and> timeLimit p = 2 \<and> memoryLimit p = 128"
    and dh: "\<forall>i<hard ?d.
         let p = ?h ! (easy ?d + medium ?d + i)
         in from_template ''Loops'' (hard_templates ! (i mod length hard_templates)) p
            \<and> difficulty p = Hard \<and> timeLimit p = 5 \<and> memoryLimit p = 256"
    and di: "\<forall>k<easy ?d + medium ?d + hard ?d.
         problem_id (?h ! k) = ''problem_'' @ string_of_nat (k + 1)"
    by blast+
  from c have le: "length easy_templates = 3" and lm: "length medium_templates = 2"
    and lh: "length hard_templates = 2"
    by blast+
  have t0: "from_template ''Recursion'' (easy_templates ! 0) (?g ! 0)
      \<and> difficulty (?g ! 0) = Easy \<and> timeLimit (?g ! 0) = 1 \<and> memoryLimit (?g ! 0) = 64"
    using ce [rule_format, OF c0] le by (simp add: Let_def)
  have t1: "from_template ''Recursion'' (easy_templates ! 1) (?g ! 1)
      \<and> difficulty (?g ! 1) = Easy \<and> timeLimit (?g ! 1) = 1 \<and> memoryLimit (?g ! 1) = 64"
    using ce [rule_format, OF c1] le by (simp add: Let_def)
  have t3: "from_template ''Loops'' (easy_templates ! 0) (?h ! 3)
      \<and> difficulty (?h ! 3) = Easy \<and> timeLimit (?h ! 3) = 1 \<and> memoryLimit (?h ! 3) = 64"
    using de [rule_format, OF d3] le by (simp add: Let_def)
  have t6: "from_template ''Loops'' (medium_templates ! 0) (?h ! 6)
      \<and> difficulty (?h ! 6) = Medium \<and> timeLimit (?h ! 6) = 2 \<and> memoryLimit (?h ! 6) = 128"
    using dm [rule_format, OF d2] lm by (simp add: Let_def)
  have t7: "from_template ''Loops'' (hard_templates ! 0) (?h ! 7)
      \<and> difficulty (?h ! 7) = Hard \<and> timeLimit (?h ! 7) = 5 \<and> memoryLimit (?h ! 7) = 256"
    using dh [rule_format, OF d0] lh by (simp add: Let_def)
  have g0: "(problem_id (?g ! 0), title (?g ! 0), difficulty (?g ! 0), timeLimit (?g ! 0),
        memoryLimit (?g ! 0)) = (''problem_1'', ''Recursion - Hello World Program'', Easy, 1, 64)"
    using t0 ci [rule_format, of 0] string_of_digit(1)
    by (simp add: from_template_def easy_templates_def)
  have g1: "(problem_id (?g ! 1), title (?g ! 1), difficulty (?g ! 1), timeLimit (?g ! 1),
        memoryLimit (?g ! 1)) = (''problem_2'', ''Recursion - Sum of Two Numbers'', Easy, 1, 64)"
    using t1 ci [rule_format, of 1] string_of_digit(2)
    by (simp add: from_template_def easy_templates_def)
  have h3: "(problem_id (?h ! 3), title (?h ! 3), difficulty (?h ! 3), timeLimit (?h ! 3),
        memoryLimit (?h ! 3)) = (''problem_4'', ''Loops - Hello World Program'', Easy, 1, 64)"
    using t3 di [rule_format, of 3] string_of_digit(3)
    by (simp add: from_template_def easy_templates_def)
  have h6: "(problem_id (?h ! 6), title (?h ! 6), difficulty (?h ! 6), timeLimit (?h ! 6),
        memoryLimit (?h ! 6)) = (''problem_7'', ''Loops - Factorial Calculator'', Medium, 2, 128)"
    using t6 di [rule_format, of 6] string_of_digit(4)
    by (simp add: from_template_def medium_templates_def)
  have h7: "(problem_id (?h ! 7), title (?h ! 7), difficulty (?h ! 7), timeLimit (?h ! 7),
        memoryLimit (?h ! 7)) = (''problem_8'', ''Loops - Prime Number Check'', Hard, 5, 256)"
    using t7 di [rule_format, of 7] string_of_digit(5)
    by (simp add: from_template_def hard_templates_def)
  show ?thesis
    using c0 c1 d3 d2 d0 lc ld g0 g1 h3 h6 h7 by simp
qed

section \<open>Properties of the built-in analysis\<close>

lemma score_final [simp]: "score (default_suggestion (final_feedback a)) = score a"
  by (simp add: default_suggestion_def final_feedback_def push_def Let_def)

lemma score_analyze: "score (analyzeCodeBuiltIn c p) = max 0 (min 100 (score (checks c p)))"
  by (simp add: analyzeCodeBuiltIn_def within_bounds_def)

lemma basic_structure_lower: "score a - 30 \<le> score (basic_structure c a)"
  by (simp add: basic_structure_def check_main_def check_stdio_def check_return_def
      add_score_def push_def Let_def)

lemma problem_specific_lower: "score a - 15 \<le> score (problem_specific c p a)"
  by (simp add: problem_specific_def add_score_def push_def Let_def)

lemma code_quality_lower: "score a \<le> score (code_quality c a)"
  by (simp add: code_quality_def add_score_def push_def Let_def)

lemma checks_lower: "15 \<le> score (checks c p)"
proof -
  let ?init = "\<lparr>feedback = '''', suggestions = [], score = 60\<rparr>"
  have "score ?init - 30 \<le> score (basic_structure c ?init)"
    by (rule basic_structure_lower)
  moreover have "score (basic_structure c ?init) - 15
      \<le> score (problem_specific c p (basic_structure c ?init))"
    by (rule problem_specific_lower)
  moreover have "score (problem_specific c p (basic_structure c ?init))
      \<le> score (checks c p)"
    unfolding checks_def by (rule code_quality_lower)
  ultimately show ?thesis by simp
qed

lemma suggestions_final [simp]:
  "suggestions (final_feedback a) = suggestions a"
  by (simp add: final_feedback_def Let_def)

lemma code_quality_suggestions: "suggestions (code_quality c a) \<noteq> []"
  by (simp add: code_quality_def add_score_def push_def Let_def)

text \<open>
  C4. For every code string and every problem, the score returned by the heuristic
  analyzer lies between 0 and 100; the empty code string and a code string that earns
  every bonus (whose unclamped total is 105) are among the inputs.
\<close>

theorem analyze_score_bounds:
  "0 \<le> score (analyzeCodeBuiltIn c p) \<and> score (analyzeCodeBuiltIn c p) \<le> 100"
  by (simp add: score_analyze)

text \<open>
  C9. For every code string and every problem, the suggestions sequence returned by the
  heuristic analyzer is non-empty.
\<close>

theorem analyze_suggestions_nonempty: "suggestions (analyzeCodeBuiltIn c p) \<noteq> []"
proof -
  have "suggestions (within_bounds (checks c p)) \<noteq> []"
    by (simp add: within_bounds_def checks_def code_quality_suggestions)
  then show ?thesis
    by (simp add: analyzeCodeBuiltIn_def default_suggestion_def push_def)
qed

text \<open>
  C10. For every code string and every problem, the score of the heuristic analyzer is at
  least 15: the total before the clamp is already at least 15, so the lower clamp to 0
  never changes it.
\<close>

theorem analyze_score_at_least_15:
  "15 \<le> score (analyzeCodeBuiltIn c p) \<and> 15 \<le> score (checks c p)
   \<and> max 0 (score (checks c p)) = score (checks c p)"
  using checks_lower [of c p] by (simp add: score_analyze)

subsection \<open>The analysis evaluated\<close>

lemmas analyze_defs = analyzeCodeBuiltIn_def checks_def basic_structure_def check_main_def
  check_stdio_def check_return_def problem_specific_def code_quality_def within_bounds_def
  final_feedback_def default_suggestion_def push_def add_score_def toLowerCase_def
  lower_char_def Let_def

text \<open>
  A code string with no structure at all against the Hello World problem loses 20, 10 and
  15 points: the bound of C10 is attained.
\<close>

lemma example_analysis_printf:
  "analyzeCodeBuiltIn ''printf'' example_problem =
     \<lparr>feedback = ''Your code has been analyzed. Your code needs some work. Check the suggestions below.'',
      suggestions =
        [''Your code should include a main function: int main()'',
         ''Don't forget to include #include <stdio.h> for input/output functions'',
         ''Make sure to print exactly 'Hello, World!' using printf'',
         ''Consider adding comments to explain your logic''],
      score = 15\<rparr>"
  by (simp add: analyze_defs example_problem_def)

lemma example_analysis_main:
  "analyzeCodeBuiltIn ''int main(){}'' example_problem =
     \<lparr>feedback = ''Your code has been analyzed. Your code needs some work. Check the suggestions below.'',
      suggestions =
        [''Your main function should return a value (usually return 0;)'',
         ''Make sure to print exactly 'Hello, World!' using printf'',
         ''Consider adding comments to explain your logic''],
      score = 50\<rparr>"
  by (simp add: analyze_defs example_problem_def)

lemma example_analysis_skeleton:
  "analyzeCodeBuiltIn ''#include <stdio.h> int main(){return 0;}'' example_problem =
     \<lparr>feedback = ''Your code has been analyzed. Good effort! There are some areas for improvement.'',
      suggestions =
        [''Make sure to print exactly 'Hello, World!' using printf'',
         ''Consider adding comments to explain your logic''],
      score = 65\<rparr>"
  by (simp add: analyze_defs example_problem_def)

text \<open>
  The two analysis scenarios of the specification: a bare main function against a Hello
  World title scores 60, and a complete Hello World program scores 100.
\<close>

lemma scenario_A:
  "analyzeCodeBuiltIn ''int main(){return 0;}''
     (example_problem\<lparr>title := ''X - Hello World Program''\<rparr>) =
     \<lparr>feedback = ''Your code has been analyzed. Good effort! There are some areas for improvement.'',
      suggestions =
        [''Make sure to print exactly 'Hello, World!' using printf'',
         ''Consider adding comments to explain your logic''],
      score = 60\<rparr>"
  by (simp add: analyze_defs example_problem_def)

lemma scenario_B:
  \<open>analyzeCodeBuiltIn ''#include <stdio.h> int main(){ printf("Hello, World!"); return 0; }''
     (example_problem\<lparr>title := ''Hello World Program''\<rparr>) =
     \<lparr>feedback = ''Great! Your Hello World program looks correct. Excellent work! Your solution looks well-structured.'',
      suggestions = [''Consider adding comments to explain your logic''],
      score = 100\<rparr>\<close>
  by (simp add: analyze_defs example_problem_def)

text \<open>The two extremes: the empty code string, and a code string that earns every bonus.\<close>

lemma example_analysis_empty:
  "score (analyzeCodeBuiltIn [] example_problem) = 25"
  by (simp add: analyze_defs example_problem_def)

lemma example_analysis_all_bonuses:
  "score (checks ''#include <stdio.h> // Hello, World! int main printf return'' example_problem)
     = 105
   \<and> score (analyzeCodeBuiltIn
        ''#include <stdio.h> // Hello, World! int main printf return'' example_problem) = 100"
  by (simp add: analyze_defs example_problem_def)

text \<open>
  Of the problem, the analysis reads the title only.
\<close>

lemma analyze_reads_title:
  "title p1 = title p2 \<Longrightarrow> analyzeCodeBuiltIn c p1 = analyzeCodeBuiltIn c p2"
  by (simp add: analyzeCodeBuiltIn_def checks_def problem_specific_def)

section \<open>Properties of the provider switch\<close>

text \<open>
  C5. When no credential is configured, so that the provider is null, \<open>analyzeCode\<close>
  returns, for every code string and every problem, exactly the result of the built-in
  analyzer, and does not throw: the same feedback, the same suggestions and the same
  score, the integer read as a JavaScript number.
\<close>

theorem analyze_without_provider:
  "analyzeCode None c p = Inr (as_js (analyzeCodeBuiltIn c p))
   \<and> feedback_js (as_js (analyzeCodeBuiltIn c p)) = feedback (analyzeCodeBuiltIn c p)
   \<and> suggestions_js (as_js (analyzeCodeBuiltIn c p)) = suggestions (analyzeCodeBuiltIn c p)
   \<and> score_js (as_js (analyzeCodeBuiltIn c p)) = Num (real_of_int (score (analyzeCodeBuiltIn c p)))"
  by (simp add: analyzeCode_def as_js_def)

text \<open>
  With a provider, a numeric score of a reply is clamped as well; a score that is not
  numeric stays \<^verbatim>\<open>NaN\<close>.
\<close>

lemma clamp_number:
  "Math_max (Num 0) (Math_min (Num 100) v) = Num x \<Longrightarrow> 0 \<le> x \<and> x \<le> 100"
  by (cases v) auto

lemma analyzeCode_score_bounds:
  "analyzeCode client c p = Inr a \<Longrightarrow> score_js a = Num x \<Longrightarrow> 0 \<le> x \<and> x \<le> 100"
  by (cases client)
    (auto simp add: analyzeCode_def as_js_def score_analyze
      split: option.splits sum.splits dest: clamp_number)

lemma analyzeCode_builtin_number:
  "analyzeCode None c p = Inr a \<Longrightarrow> \<exists>k. score_js a = Num (real_of_int k) \<and> 15 \<le> k \<and> k \<le> 100"
  using checks_lower [of c p] by (auto simp add: analyzeCode_def as_js_def score_analyze)

lemma analyzeCode_not_numeric:
  "analysis_reply client c p = Inr r \<Longrightarrow> score_r r = Some NaN \<Longrightarrow>
     \<exists>a. analyzeCode (Some client) c p = Inr a \<and> score_js a = NaN"
  by (simp add: analyzeCode_def)

section \<open>Properties of the submission route\<close>

lemmas example_defs = example_problem_def example_assignment_def example_storage_def
  example_request_def example_data_def example_env_def failing_client_def

lemma example_resolve:
  "resolve (example_request c 0) example_storage = Inr (example_data c 0, example_problem)"
  by (simp add: resolve_def insertSubmissionSchema_parse_def getAssignment_def js_index_def
      example_defs)

lemma example_code [simp]: "code (example_data c i) = c"
  by (simp add: example_data_def)

lemma example_simulate_skeleton:
  "simulate (example_env client) ''#include <stdio.h> int main(){return 0;}'' example_problem
     = (Passed,
        [\<lparr>testCase = 1, passed = True, error = None, output_text = Some ''Hello, World!'',
          expected = Some ''Hello, World!''\<rparr>],
        Num 100)"
  by (simp add: simulate_def structure_ok_def example_env_def example_problem_def
      half_up_percent_def Let_def)

text \<open>
  The simulated score is a number whenever the pre-check fails or the problem has a test
  case. With the pre-check passed and no test case it is the quotient of zero by zero.
\<close>

lemma simulate_number:
  "\<not> structure_ok c \<or> testCases p \<noteq> [] \<Longrightarrow> \<exists>s results n. simulate e c p = (s, results, Num n)"
  by (auto simp add: simulate_def Let_def)

lemma simulate_no_test_cases:
  "structure_ok c \<Longrightarrow> testCases p = [] \<Longrightarrow> simulate e c p = (Failed, [], NaN)"
  by (simp add: simulate_def Let_def)

text \<open>The inner try and catch, as one equation over the simulated triple.\<close>

lemma evaluate_cases:
  assumes "simulate e (code d) p = (s, results, sc)"
  shows "evaluate e d p st =
     (let sc' = (case analyzeCode (openai e) (code d) p of
                   Inl err \<Rightarrow> sc | Inr a \<Rightarrow> Math_min sc (score_js a));
          sub = \<lparr>studentId = studentId d, assignmentId = assignmentId d,
                 problemIndex = problemIndex d, code = code d, status = Some s,
                 testResults = Some results, score_s = Some sc',
                 submission_id = randomUUID e, submittedAt = now e\<rparr>
      in (case analyzeCode (openai e) (code d) p of
            Inl err \<Rightarrow>
              Json sub results ''Code submitted successfully. Basic validation completed.'' []
          | Inr a \<Rightarrow> Json sub results (feedback_js a) (suggestions_js a),
          st\<lparr>submissions := (submissions st)(randomUUID e \<mapsto> sub)\<rparr>))"
  using assms
  by (simp add: evaluate_def createSubmission_def Let_def split: sum.splits)

text \<open>
  For a problem without test cases whose code passes the pre-check, the score stored is
  the quotient of zero by zero, whatever the analysis says.
\<close>

lemma persisted_score_no_test_cases:
  assumes "resolve req st = Inr (d, p)" and "structure_ok (code d)" and "testCases p = []"
  shows "map_option score_s (submissions (snd (post_submissions e req st)) (randomUUID e))
     = Some (Some NaN)"
  using assms
  by (simp add: post_submissions_def evaluate_cases [OF simulate_no_test_cases] Let_def
      split: sum.splits)

text \<open>
  C7. A request of an authenticated student whose body parses and whose assignment exists
  and is active, with a problem index that addresses no entry of the assignment's
  problems (negative, or at least their number), is answered with status 400 and the
  message "Invalid problem index"; the storage is unchanged, so no submission is created.
\<close>

theorem invalid_problem_index_rejected:
  assumes "req_user req = Some u" and "role u = Student"
    and "insertSubmissionSchema_parse (body req) (user_id u) = Some d"
    and "getAssignment st (assignmentId d) = Some a" and "isActive a = Some True"
    and "problemIndex d < 0 \<or> int (length (problems a)) \<le> problemIndex d"
  shows "post_submissions e req st = (Status 400 ''Invalid problem index'', st)"
  using assms by (auto simp add: post_submissions_def resolve_def js_index_def)

theorem invalid_problem_index_rejected_witness:
  "req_user (example_request ''int main'' 1)
     = Some \<lparr>user_id = ''s1'', username = ''student'', role = Student\<rparr>
   \<and> role \<lparr>user_id = ''s1'', username = ''student'', role = Student\<rparr> = Student
   \<and> insertSubmissionSchema_parse (body (example_request ''int main'' 1))
         (user_id \<lparr>user_id = ''s1'', username = ''student'', role = Student\<rparr>)
       = Some (example_data ''int main'' 1)
   \<and> getAssignment example_storage (assignmentId (example_data ''int main'' 1))
       = Some example_assignment
   \<and> isActive example_assignment = Some True
   \<and> (problemIndex (example_data ''int main'' 1) < 0
        \<or> int (length (problems example_assignment)) \<le> problemIndex (example_data ''int main'' 1))
   \<and> post_submissions (example_env None) (example_request ''int main'' 1) example_storage
       = (Status 400 ''Invalid problem index'', example_storage)"
proof -
  let ?u = "\<lparr>user_id = ''s1'', username = ''student'', role = Student\<rparr>"
  have h1: "req_user (example_request ''int main'' 1) = Some ?u"
    by (simp add: example_request_def)
  have h2: "role ?u = Student" by simp
  have h3: "insertSubmissionSchema_parse (body (example_request ''int main'' 1)) (user_id ?u)
      = Some (example_data ''int main'' 1)"
    by (simp add: insertSubmissionSchema_parse_def example_request_def example_data_def)
  have h4: "getAssignment example_storage (assignmentId (example_data ''int main'' 1))
      = Some example_assignment"
    by (simp add: getAssignment_def example_storage_def example_data_def)
  have h5: "isActive example_assignment = Some True"
    by (simp add: example_assignment_def)
  have h6: "problemIndex (example_data ''int main'' 1) < 0
      \<or> int (length (problems example_assignment)) \<le> problemIndex (example_data ''int main'' 1)"
    by (simp add: example_assignment_def example_data_def)
  from invalid_problem_index_rejected [OF h1 h2 h3 h4 h5 h6, of "example_env None"]
    h1 h2 h3 h4 h5 h6
  show ?thesis by blast
qed

text \<open>
  C6. When the request passes the guards and the analysis call throws, the handler
  answers with the success payload and not with an error: the submission it stores, under
  the fresh id, carries the simulated status, test results and score as computed, and the
  reply carries the fixed feedback string and an empty list of suggestions.
\<close>

theorem analysis_failure_recovered:
  assumes "resolve req st = Inr (d, p)"
    and "analyzeCode (openai e) (code d) p = Inl err"
    and "simulate e (code d) p = (s, results, sc)"
  shows "post_submissions e req st =
     (let sub = \<lparr>studentId = studentId d, assignmentId = assignmentId d,
                 problemIndex = problemIndex d, code = code d, status = Some s,
                 testResults = Some results, score_s = Some sc,
                 submission_id = randomUUID e, submittedAt = now e\<rparr>
      in (Json sub results ''Code submitted successfully. Basic validation completed.'' [],
          st\<lparr>submissions := (submissions st)(randomUUID e \<mapsto> sub)\<rparr>))"
  using assms by (simp add: post_submissions_def evaluate_cases Let_def)

theorem analysis_failure_recovered_witness:
  "resolve (example_request ''#include <stdio.h> int main(){return 0;}'' 0) example_storage
     = Inr (example_data ''#include <stdio.h> int main(){return 0;}'' 0, example_problem)
   \<and> analyzeCode (openai (example_env (Some failing_client)))
         (code (example_data ''#include <stdio.h> int main(){return 0;}'' 0)) example_problem
       = Inl ''Failed to analyze code: Connection error.''
   \<and> simulate (example_env (Some failing_client))
         (code (example_data ''#include <stdio.h> int main(){return 0;}'' 0)) example_problem
       = (Passed,
          [\<lparr>testCase = 1, passed = True, error = None, output_text = Some ''Hello, World!'',
            expected = Some ''Hello, World!''\<rparr>],
          Num 100)
   \<and> post_submissions (example_env (Some failing_client))
         (example_request ''#include <stdio.h> int main(){return 0;}'' 0) example_storage
       = (Json
            \<lparr>studentId = ''s1'', assignmentId = ''a1'', problemIndex = 0,
              code = ''#include <stdio.h> int main(){return 0;}'', status = Some Passed,
              testResults =
                Some [\<lparr>testCase = 1, passed = True, error = None,
                        output_text = Some ''Hello, World!'',
                        expected = Some ''Hello, World!''\<rparr>],
              score_s = Some (Num 100), submission_id = ''u1'', submittedAt = 1\<rparr>
            [\<lparr>testCase = 1, passed = True, error = None, output_text = Some ''Hello, World!'',
              expected = Some ''Hello, World!''\<rparr>]
            ''Code submitted successfully. Basic validation completed.'' [],
          example_storage
            \<lparr>submissions :=
               [''u1'' \<mapsto>
                 \<lparr>studentId = ''s1'', assignmentId = ''a1'', problemIndex = 0,
                   code = ''#include <stdio.h> int main(){return 0;}'', status = Some Passed,
                   testResults =
                     Some [\<lparr>testCase = 1, passed = True, error = None,
                             output_text = Some ''Hello, World!'',
                             expected = Some ''Hello, World!''\<rparr>],
                   score_s = Some (Num 100), submission_id = ''u1'', submittedAt = 1\<rparr>]\<rparr>)"
proof -
  let ?c = "''#include <stdio.h> int main(){return 0;}''"
  let ?e = "example_env (Some failing_client)"
  have h1: "resolve (example_request ?c 0) example_storage
      = Inr (example_data ?c 0, example_problem)"
    by (rule example_resolve)
  have h2: "analyzeCode (openai ?e) (code (example_data ?c 0)) example_problem
      = Inl ''Failed to analyze code: Connection error.''"
    by (simp add: analyzeCode_def example_env_def failing_client_def)
  have h3: "simulate ?e (code (example_data ?c 0)) example_problem
      = (Passed,
         [\<lparr>testCase = 1, passed = True, error = None, output_text = Some ''Hello, World!'',
           expected = Some ''Hello, World!''\<rparr>],
         Num 100)"
    by (simp add: example_simulate_skeleton)
  have "randomUUID ?e = ''u1''" "now ?e = 1" "submissions example_storage = Map.empty"
    by (simp_all add: example_env_def example_storage_def)
  with analysis_failure_recovered [OF h1 h2 h3] h1 h2 h3
  show ?thesis by (simp add: Let_def example_data_def)
qed

text \<open>
  The merge on numbers. When the request passes the guards, the simulated score is a
  number \<open>n\<close> and the analysis throws or returns a score that is a number, the score \<open>m\<close>
  of the submission stored is at most \<open>n\<close>: the minimum of \<open>n\<close> and the analysis score, and
  \<open>n\<close> itself when the analysis throws.
\<close>

lemma merge_on_numbers:
  assumes "resolve req st = Inr (d, p)"
    and "simulate e (code d) p = (s, results, Num n)"
    and "\<forall>a. analyzeCode (openai e) (code d) p = Inr a \<longrightarrow> (\<exists>x. score_js a = Num x)"
  shows "\<exists>sub fb sg m.
     post_submissions e req st =
       (Json sub results fb sg, st\<lparr>submissions := (submissions st)(randomUUID e \<mapsto> sub)\<rparr>)
     \<and> score_s sub = Some (Num m) \<and> m \<le> n
     \<and> (case analyzeCode (openai e) (code d) p of
          Inl err \<Rightarrow> m = n | Inr a \<Rightarrow> Math_min (Num n) (score_js a) = Num m)"
  using assms
  by (auto simp add: post_submissions_def evaluate_cases Let_def split: sum.splits)


text \<open>
  C1, as the code has it. When the request passes the guards and the code lacks one of
  the substrings "int main", "#include" and "return", then, whatever the test cases of the
  problem and whatever the random draws, the handler answers with the success payload, and
  the submission it stores has status failed and the single synthetic test result. Its
  score is 20 when the analysis throws, and the minimum of 20 and the analysis score,
  hence at most 20, when the analysis returns a score that is a number.
\<close>

theorem precheck_failure_outcome:
  assumes "resolve req st = Inr (d, p)"
    and "\<not> str_includes (code d) ''int main'' \<or> \<not> str_includes (code d) ''#include''
         \<or> \<not> str_includes (code d) ''return''"
  shows "\<exists>sub fb sg.
     post_submissions e req st =
       (Json sub [missing_structure] fb sg,
        st\<lparr>submissions := (submissions st)(randomUUID e \<mapsto> sub)\<rparr>)
     \<and> status sub = Some Failed \<and> testResults sub = Some [missing_structure]
     \<and> (case analyzeCode (openai e) (code d) p of
          Inl err \<Rightarrow> score_s sub = Some (Num 20)
        | Inr a \<Rightarrow>
            (\<forall>x. score_js a = Num x \<longrightarrow> score_s sub = Some (Num (min 20 x)) \<and> min 20 x \<le> 20))"
proof -
  from assms(2) have "simulate e (code d) p = (Failed, [missing_structure], Num 20)"
    by (auto simp add: simulate_def structure_ok_def)
  with assms(1) show ?thesis
    by (simp add: post_submissions_def evaluate_cases Let_def split: sum.splits)
qed

theorem precheck_failure_outcome_witness:
  "resolve (example_request ''int main(){}'' 0) example_storage
     = Inr (example_data ''int main(){}'' 0, example_problem)
   \<and> str_includes (code (example_data ''int main(){}'' 0)) ''int main''
   \<and> \<not> str_includes (code (example_data ''int main(){}'' 0)) ''#include''
   \<and> \<not> str_includes (code (example_data ''int main(){}'' 0)) ''return''
   \<and> analyzeCode (openai (example_env None)) (code (example_data ''int main(){}'' 0))
        example_problem
       = Inr (as_js (analyzeCodeBuiltIn ''int main(){}'' example_problem))
   \<and> score_js (as_js (analyzeCodeBuiltIn ''int main(){}'' example_problem)) = Num 50
   \<and> map_option (\<lambda>sub. (status sub, testResults sub, score_s sub))
         (submissions (snd (post_submissions (example_env None)
            (example_request ''int main(){}'' 0) example_storage)) ''u1'')
       = Some (Some Failed, Some [missing_structure], Some (Num 20))"
proof -
  let ?c = "''int main(){}''"
  let ?e = "example_env None"
  have h1: "resolve (example_request ?c 0) example_storage
      = Inr (example_data ?c 0, example_problem)"
    by (rule example_resolve)
  have h2: "\<not> str_includes (code (example_data ?c 0)) ''int main''
        \<or> \<not> str_includes (code (example_data ?c 0)) ''#include''
        \<or> \<not> str_includes (code (example_data ?c 0)) ''return''"
    by simp
  have a: "analyzeCode (openai ?e) (code (example_data ?c 0)) example_problem
      = Inr (as_js (analyzeCodeBuiltIn ?c example_problem))"
    by (simp add: analyzeCode_def example_env_def)
  have n: "score_js (as_js (analyzeCodeBuiltIn ?c example_problem)) = Num 50"
    by (simp add: as_js_def example_analysis_main)
  have u: "randomUUID ?e = ''u1''" by (simp add: example_env_def)
  have h3: "str_includes (code (example_data ?c 0)) ''int main''"
    and h4: "\<not> str_includes (code (example_data ?c 0)) ''#include''"
    and h5: "\<not> str_includes (code (example_data ?c 0)) ''return''"
    by simp_all
  from precheck_failure_outcome [OF h1 h2, of ?e] a n u h1 h3 h4 h5 show ?thesis
    by auto
qed

text \<open>
  C1, as the specification states it, fails. The code string \<^verbatim>\<open>printf\<close> lacks all three
  substrings; submitted for the Hello World problem without a provider, it is stored with
  the score 15, the score of the built-in analysis, and not with 20.
\<close>

theorem precheck_score_counterexample:
  "resolve (example_request ''printf'' 0) example_storage
     = Inr (example_data ''printf'' 0, example_problem)
   \<and> \<not> str_includes (code (example_data ''printf'' 0)) ''int main''
   \<and> map_option score_s
       (submissions (snd (post_submissions (example_env None) (example_request ''printf'' 0)
          example_storage)) ''u1'') = Some (Some (Num 15))
   \<and> Num 15 \<noteq> Num 20"
proof -
  have sim: "simulate (example_env None) ''printf'' example_problem
      = (Failed, [missing_structure], Num 20)"
    by (simp add: simulate_def structure_ok_def)
  show ?thesis
    using sim
    by (simp add: example_resolve post_submissions_def evaluate_cases analyzeCode_def
        as_js_def example_analysis_printf example_env_def Let_def)
qed

end
